theory Spec2Isabelle
  imports Main "HOL-Library.Sublist" "HOL-Library.AList"
begin

section \<open>Strings\<close>

text \<open>
  A Python \<open>str\<close> is modelled by its UTF-8 encoding, a \<^typ>\<open>string\<close> of bytes: this is
  what the script writes to its files (\<open>encoding="utf-8"\<close>). Every string operation the
  script uses (\<open>in\<close>, \<open>replace\<close>, concatenation, splitting at line feeds, the
  space-and-tab tests of \<open>textwrap.dedent\<close>) has an ASCII pattern, and on UTF-8 text such an
  operation gives the same result on bytes as on code points. The one exception,
  \<open>str.upper\<close>, is a parameter of the model.
\<close>

abbreviation a_acute :: string where "a_acute \<equiv> [CHR 0xC3, CHR 0xA1]"
abbreviation o_acute :: string where "o_acute \<equiv> [CHR 0xC3, CHR 0xB3]"
abbreviation c_cedil :: string where "c_cedil \<equiv> [CHR 0xC3, CHR 0xA7]"
abbreviation a_tilde :: string where "a_tilde \<equiv> [CHR 0xC3, CHR 0xA3]"
abbreviation o_tilde :: string where "o_tilde \<equiv> [CHR 0xC3, CHR 0xB5]"
abbreviation i_acute :: string where "i_acute \<equiv> [CHR 0xC3, CHR 0xAD]"
abbreviation u_acute :: string where "u_acute \<equiv> [CHR 0xC3, CHR 0xBA]"
abbreviation e_circ :: string where "e_circ \<equiv> [CHR 0xC3, CHR 0xAA]"
abbreviation U_acute :: string where "U_acute \<equiv> [CHR 0xC3, CHR 0x9A]"
abbreviation A_acute :: string where "A_acute \<equiv> [CHR 0xC3, CHR 0x81]"
abbreviation C_cedil :: string where "C_cedil \<equiv> [CHR 0xC3, CHR 0x87]"
abbreviation A_tilde :: string where "A_tilde \<equiv> [CHR 0xC3, CHR 0x83]"
abbreviation O_acute :: string where "O_acute \<equiv> [CHR 0xC3, CHR 0x93]"
abbreviation I_acute :: string where "I_acute \<equiv> [CHR 0xC3, CHR 0x8D]"
abbreviation emoji_page :: string where "emoji_page \<equiv> [CHR 0xF0, CHR 0x9F, CHR 0x93, CHR 0x84]"
abbreviation emoji_check :: string where "emoji_check \<equiv> [CHR 0xE2, CHR 0x9C, CHR 0x85]"
abbreviation emoji_cross :: string where "emoji_cross \<equiv> [CHR 0xE2, CHR 0x9D, CHR 0x8C]"
abbreviation emoji_chart :: string where "emoji_chart \<equiv> [CHR 0xF0, CHR 0x9F, CHR 0x93, CHR 0x8A]"
abbreviation emoji_stopwatch :: string where
  "emoji_stopwatch \<equiv> [CHR 0xE2, CHR 0x8F, CHR 0xB1, CHR 0xEF, CHR 0xB8, CHR 0x8F]"
abbreviation emoji_sparkles :: string where "emoji_sparkles \<equiv> [CHR 0xE2, CHR 0x9C, CHR 0xA8]"
abbreviation apostrophe :: string where "apostrophe \<equiv> [CHR 0x27]"
abbreviation dquote :: char where "dquote \<equiv> CHR 0x22"
abbreviation LF :: char where "LF \<equiv> CHR 0x0A"
abbreviation CR :: char where "CR \<equiv> CHR 0x0D"

text \<open>Python's \<open>needle in hay\<close> on strings: the needle occurs at some position.\<close>

fun py_in :: "string \<Rightarrow> string \<Rightarrow> bool" where
  "py_in needle [] = (needle = [])"
| "py_in needle (c # cs) = (prefix needle (c # cs) \<or> py_in needle cs)"

text \<open>\<open>s.replace(old, new)\<close> for a one-character \<open>old\<close>, as the script calls it.\<close>

definition replace_char :: "char \<Rightarrow> string \<Rightarrow> string \<Rightarrow> string" where
  "replace_char old new s = concat (map (\<lambda>c. if c = old then new else [c]) s)"

text \<open>\<open>s.split('\n')\<close> and \<open>'\n'.join(ls)\<close>.\<close>

fun split_nl :: "string \<Rightarrow> string list" where
  "split_nl [] = [[]]"
| "split_nl (c # cs) =
     (if c = LF then [] # split_nl cs
      else (case split_nl cs of l # ls \<Rightarrow> (c # l) # ls | [] \<Rightarrow> [[c]]))"

fun join :: "string \<Rightarrow> string list \<Rightarrow> string" where
  "join sep [] = []"
| "join sep [l] = l"
| "join sep (l # ls) = l @ sep @ join sep ls"

subsection \<open>textwrap.dedent\<close>

text \<open>
  The script needs Python 3.12 or later (its f-string has a backslash inside a replacement
  field). \<open>dedent\<close> is modelled as in the \<open>textwrap\<close> of CPython 3.12 and 3.13, line by line:
  \<^enum> \<open>re.sub('^[ \t]+$', '', text)\<close> empties every line made of spaces and tabs only;
  \<^enum> \<open>findall('(^[ \t]*)(?:[^ \t\n])')\<close> collects the leading white space of every line that
    has another character;
  \<^enum> the margin is the common prefix of these indents, found by the loop below;
  \<^enum> a non-empty margin is removed from the start of every line that has it.
\<close>

definition is_blank_char :: "char \<Rightarrow> bool" where
  "is_blank_char c = (c = CHR '' '' \<or> c = CHR 0x09)"

definition whitespace_only_sub :: "string \<Rightarrow> string" where
  "whitespace_only_sub text =
     join [LF] (map (\<lambda>l. if list_all is_blank_char l then [] else l) (split_nl text))"

definition leading_whitespace :: "string \<Rightarrow> string list" where
  "leading_whitespace text =
     map (takeWhile is_blank_char) (filter (\<lambda>l. dropWhile is_blank_char l \<noteq> []) (split_nl text))"

fun margin_step :: "string \<Rightarrow> string option \<Rightarrow> string option" where
  "margin_step indent None = Some indent"
| "margin_step indent (Some margin) =
     (if prefix margin indent then Some margin
      else if prefix indent margin then Some indent
      else Some (longest_common_prefix margin indent))"

definition strip_margin :: "string \<Rightarrow> string \<Rightarrow> string" where
  "strip_margin margin l = (if prefix margin l then drop (length margin) l else l)"

definition dedent :: "string \<Rightarrow> string" where
  "dedent text =
     (let text1 = whitespace_only_sub text
      in case fold margin_step (leading_whitespace text1) None of
           None \<Rightarrow> text1
         | Some margin \<Rightarrow>
             if margin = [] then text1
             else join [LF] (map (strip_margin margin) (split_nl text1)))"

section \<open>The document tool \<open>consult_document_rag\<close>\<close>

definition no_url_text :: string where
  "no_url_text =
     ''Nenhum URL de relat'' @ o_acute @ ''rio financeiro v'' @ a_acute @
     ''lido foi fornecido. Dados fundamentalistas indispon'' @ i_acute @ ''veis.''"

definition nflx_literal :: string where
  "nflx_literal =
     ''\<newline>'' @ ''        An'' @ a_acute @
     ''lise RAG do 10-K (2023): A Receita totalizou $33.7 bilh'' @ o_tilde @
     ''es, um aumento de 6.7% A/A.\<newline>'' @
     ''        O Lucro L'' @ i_acute @ ''quido foi de $5.4 bilh'' @ o_tilde @
     ''es. O Fluxo de Caixa Livre (FCF) foi robusto em $6.9 bilh'' @ o_tilde @
     ''es,\<newline>'' @ ''        indicando forte gera'' @ c_cedil @ a_tilde @
     ''o de caixa e sa'' @ u_acute @ ''de financeira.\<newline>'' @
     ''        ''"

definition tsla_literal :: string where
  "tsla_literal =
     ''\<newline>'' @ ''        An'' @ a_acute @
     ''lise RAG do 10-K (2023): A Receita atingiu $96.8 bilh'' @ o_tilde @ ''es. Lucro L'' @
     i_acute @ ''quido: $15.0 bilh'' @ o_tilde @ ''es.\<newline>'' @
     ''        O FCF foi de $4.4 bilh'' @ o_tilde @ ''es. O relat'' @ o_acute @
     ''rio destaca margens de lucro sob press'' @ a_tilde @ ''o devido a cortes de pre'' @
     c_cedil @ ''os.\<newline>'' @ ''        ''"

definition generic_literal :: string where
  "generic_literal =
     ''\<newline>'' @ ''        An'' @ a_acute @
     ''lise RAG (Simulada): Receita de $150 bilh'' @ o_tilde @ ''es no '' @ u_acute @
     ''ltimo ano. Lucro l'' @ i_acute @ ''quido de $40 bilh'' @ o_tilde @ ''es. \<newline>'' @
     ''        A empresa reportou forte recompra de a'' @ c_cedil @ o_tilde @
     ''es e foca em servi'' @ c_cedil @ ''os para crescimento futuro.\<newline>'' @
     ''        ''"

text \<open>
  The value the tool returns. Its \<open>print\<close> of the first 50 characters of the URL is a trace on
  the console and no part of the returned text; it is left out here.
\<close>

definition consult_document_rag :: "string \<Rightarrow> string" where
  "consult_document_rag report_url =
     (if report_url = [] \<or> py_in ''N/A'' report_url \<or> py_in ''Sem URL'' report_url
      then no_url_text
      else if py_in ''NFLX'' report_url then dedent nflx_literal
      else if py_in ''TSLA'' report_url then dedent tsla_literal
      else dedent generic_literal)"

section \<open>Exceptions, the console, files\<close>

text \<open>
  An exception is its class and the text of \<open>str(e)\<close>. All classes below derive from
  Python's \<open>Exception\<close>, so \<open>except Exception\<close> catches every value of this type;
  \<open>except FileNotFoundError\<close> catches the first class only. Signals such as
  \<open>KeyboardInterrupt\<close>, which are no \<open>Exception\<close>, are outside the model.
\<close>

datatype exc_class =
  FileNotFoundError | PermissionError | OSError | UnicodeError | CsvError | KeyError
  | ValueError | RuntimeError

datatype pyexc = PyExc exc_class string

fun exc_class_of :: "pyexc \<Rightarrow> exc_class" where
  "exc_class_of (PyExc c m) = c"

fun exc_str :: "pyexc \<Rightarrow> string" where
  "exc_str (PyExc c m) = m"

text \<open>
  The state of a run: the files (path to text), what \<open>print\<close> wrote (one entry for each
  call), the seconds spent in \<open>time.sleep\<close>, and the module variable
  \<open>fatos_consolidados\<close> (unbound at first).
\<close>

record state =
  files :: "string \<rightharpoonup> string"
  console :: "string list"
  slept :: nat
  fatos_consolidados :: "string option"

definition print :: "string \<Rightarrow> state \<Rightarrow> state" where
  "print s st = st\<lparr>console := console st @ [s]\<rparr>"

definition sleep :: "nat \<Rightarrow> state \<Rightarrow> state" where
  "sleep n st = st\<lparr>slept := slept st + n\<rparr>"

record AnaliseAcionaria =
  data_relatorio :: string
  empresa :: string
  valor_atual_acao :: string
  sumario_executivo :: string
  noticias_relevantes :: "string list"
  analise_financeira_resumida :: string
  sentimento_geral :: string
  recomendacao_simplificada :: string

text \<open>
  What the script does not decide: the faults of the file system, the two remote calls, the
  clock and the library's \<open>str.upper\<close>. The remote calls and the clock take the position of
  the company in the list, so that two calls with equal arguments may differ.
  \<^item> \<open>read_fault p\<close>: the exception that opening \<open>p\<close> for reading, or reading and decoding
    it, raises for another reason than the absence of the file;
  \<^item> \<open>open_fault p\<close>: the exception that \<open>open(p, 'w')\<close> raises;
  \<^item> \<open>write_fault p text\<close>: the exception that writing \<open>text\<close> to the opened \<open>p\<close> raises,
    with the number of bytes that reached the file before it;
  \<^item> \<open>researcher i question\<close>: \<open>agent_executor_researcher.invoke\<close> followed by
    \<open>['output']\<close>;
  \<^item> \<open>relator i empresa fatos\<close>: \<open>relator_chain.invoke\<close>, a validated record or an
    exception (a result that is no record fails at its first attribute access, inside the
    same \<open>try\<close>);
  \<^item> \<open>today i\<close>: the text of \<open>date.today()\<close>.
\<close>

record env =
  read_fault :: "string \<Rightarrow> pyexc option"
  open_fault :: "string \<Rightarrow> pyexc option"
  write_fault :: "string \<Rightarrow> string \<Rightarrow> (pyexc \<times> nat) option"
  researcher :: "nat \<Rightarrow> string \<Rightarrow> pyexc + string"
  relator :: "nat \<Rightarrow> string \<Rightarrow> string \<Rightarrow> pyexc + AnaliseAcionaria"
  today :: "nat \<Rightarrow> string"
  upper :: "string \<Rightarrow> string"

text \<open>\<open>open(path, 'r')\<close> and reading the whole file.\<close>

definition read_file :: "env \<Rightarrow> string \<Rightarrow> state \<Rightarrow> pyexc + string" where
  "read_file w path st =
     (case read_fault w path of
        Some e \<Rightarrow> Inl e
      | None \<Rightarrow>
          (case files st path of
             None \<Rightarrow> Inl (PyExc FileNotFoundError
                       (''[Errno 2] No such file or directory: '' @ apostrophe @ path @ apostrophe))
           | Some text \<Rightarrow> Inr text))"

text \<open>
  \<open>with open(path, 'w') as f: f.write(text)\<close>. Opening creates the file or empties an
  existing one; a write that fails afterwards leaves what had reached the file.
\<close>

definition write_file :: "env \<Rightarrow> string \<Rightarrow> string \<Rightarrow> state \<Rightarrow> pyexc option \<times> state" where
  "write_file w path text st =
     (case open_fault w path of
        Some e \<Rightarrow> (Some e, st)
      | None \<Rightarrow>
          (case write_fault w path text of
             Some (e, n) \<Rightarrow> (Some e, st\<lparr>files := (files st)(path \<mapsto> take n text)\<rparr>)
           | None \<Rightarrow> (None, st\<lparr>files := (files st)(path \<mapsto> text)\<rparr>)))"

section \<open>The csv module\<close>

text \<open>
  The file is read in text mode with universal newlines: \<open>\r\n\<close> and \<open>\r\<close> become
  \<open>\n\<close>, and iterating the file gives its lines, each with its line feed.
\<close>

fun universal_newlines :: "string \<Rightarrow> string" where
  "universal_newlines [] = []"
| "universal_newlines [c] = (if c = CR then [LF] else [c])"
| "universal_newlines (c # d # cs) =
     (if c = CR \<and> d = LF then LF # universal_newlines cs
      else if c = CR then LF # universal_newlines (d # cs)
      else c # universal_newlines (d # cs))"

fun readlines :: "string \<Rightarrow> string list" where
  "readlines [] = []"
| "readlines (c # cs) =
     (if c = LF then [LF] # readlines cs
      else (case readlines cs of [] \<Rightarrow> [[c]] | l # ls \<Rightarrow> (c # l) # ls))"

text \<open>
  \<open>csv.reader\<close> with the dialect \<open>excel\<close> (delimiter comma, quote character \<open>"\<close>,
  doubled quotes, no escape character, not strict), as the state machine of \<open>_csv.c\<close>:
  \<open>parse_process_char\<close> for each character of a line, then for the end of the line
  (\<open>None\<close> below). The states of an escape character are unreachable in this dialect and
  left out. The reader's limit on the length of one field (131072 characters) is not
  modelled.
\<close>

datatype parse_state =
  START_RECORD | START_FIELD | IN_FIELD | IN_QUOTED_FIELD | QUOTE_IN_QUOTED_FIELD | EAT_CRNL

record reader =
  pstate :: parse_state
  field :: string
  rfields :: "string list"

definition parse_reset :: reader where
  "parse_reset = \<lparr>pstate = START_RECORD, field = [], rfields = []\<rparr>"

definition parse_save_field :: "reader \<Rightarrow> reader" where
  "parse_save_field r = r\<lparr>rfields := rfields r @ [field r], field := []\<rparr>"

definition parse_add_char :: "char \<Rightarrow> reader \<Rightarrow> reader" where
  "parse_add_char c r = r\<lparr>field := field r @ [c]\<rparr>"

definition end_of_line :: "char option \<Rightarrow> bool" where
  "end_of_line c = (c = None \<or> c = Some LF \<or> c = Some CR)"

definition csv_newline_error :: pyexc where
  "csv_newline_error = PyExc CsvError
     (''new-line character seen in unquoted field - do you need to open the file with newline='' @
      apostrophe @ apostrophe @ ''?'')"

fun start_field :: "char option \<Rightarrow> reader \<Rightarrow> reader" where
  "start_field c r =
     (if end_of_line c
      then (parse_save_field r)\<lparr>pstate := (if c = None then START_RECORD else EAT_CRNL)\<rparr>
      else if c = Some dquote then r\<lparr>pstate := IN_QUOTED_FIELD\<rparr>
      else if c = Some CHR '','' then parse_save_field r
      else (parse_add_char (the c) r)\<lparr>pstate := IN_FIELD\<rparr>)"

fun parse_process_char :: "char option \<Rightarrow> reader \<Rightarrow> pyexc + reader" where
  "parse_process_char c r =
     (case pstate r of
        START_RECORD \<Rightarrow>
          (if c = None then Inr r
           else if c = Some LF \<or> c = Some CR then Inr (r\<lparr>pstate := EAT_CRNL\<rparr>)
           else Inr (start_field c (r\<lparr>pstate := START_FIELD\<rparr>)))
      | START_FIELD \<Rightarrow> Inr (start_field c r)
      | IN_FIELD \<Rightarrow>
          (if end_of_line c
           then Inr ((parse_save_field r)\<lparr>pstate := (if c = None then START_RECORD else EAT_CRNL)\<rparr>)
           else if c = Some CHR '','' then Inr ((parse_save_field r)\<lparr>pstate := START_FIELD\<rparr>)
           else Inr (parse_add_char (the c) r))
      | IN_QUOTED_FIELD \<Rightarrow>
          (if c = None then Inr r
           else if c = Some dquote then Inr (r\<lparr>pstate := QUOTE_IN_QUOTED_FIELD\<rparr>)
           else Inr (parse_add_char (the c) r))
      | QUOTE_IN_QUOTED_FIELD \<Rightarrow>
          (if c = Some dquote then Inr ((parse_add_char dquote r)\<lparr>pstate := IN_QUOTED_FIELD\<rparr>)
           else if c = Some CHR '','' then Inr ((parse_save_field r)\<lparr>pstate := START_FIELD\<rparr>)
           else if end_of_line c
           then Inr ((parse_save_field r)\<lparr>pstate := (if c = None then START_RECORD else EAT_CRNL)\<rparr>)
           else Inr ((parse_add_char (the c) r)\<lparr>pstate := IN_FIELD\<rparr>))
      | EAT_CRNL \<Rightarrow>
          (if c = Some LF \<or> c = Some CR then Inr r
           else if c = None then Inr (r\<lparr>pstate := START_RECORD\<rparr>)
           else Inl csv_newline_error))"

text \<open>One line of the file: its characters, then the end of the line.\<close>

fun parse_chars :: "string \<Rightarrow> reader \<Rightarrow> pyexc + reader" where
  "parse_chars [] r = parse_process_char None r"
| "parse_chars (c # cs) r =
     (case parse_process_char (Some c) r of Inl e \<Rightarrow> Inl e | Inr r' \<Rightarrow> parse_chars cs r')"

text \<open>
  \<open>Reader_iternext\<close>, called until the lines are used up: a record ends with the line after
  which the state is \<open>START_RECORD\<close>; at the end of the input an open record is returned
  when its field is not empty or a quoted field is open.
\<close>

fun reader_rows :: "reader \<Rightarrow> string list \<Rightarrow> pyexc + string list list" where
  "reader_rows r [] =
     (if field r \<noteq> [] \<or> pstate r = IN_QUOTED_FIELD
      then Inr [rfields (parse_save_field r)] else Inr [])"
| "reader_rows r (l # ls) =
     (case parse_chars l r of
        Inl e \<Rightarrow> Inl e
      | Inr r' \<Rightarrow>
          (if pstate r' = START_RECORD
           then (case reader_rows parse_reset ls of
                   Inl e \<Rightarrow> Inl e
                 | Inr rows \<Rightarrow> Inr (rfields r' # rows))
           else reader_rows r' ls))"

text \<open>
  A row as \<open>csv.DictReader\<close> returns it: a dict from column names to texts, in insertion
  order, where a row shorter than the header has \<open>None\<close> for the columns it lacks, and
  a row longer than the header keeps its surplus as a list under the key \<open>None\<close>
  (the component \<open>restkey\<close>).
\<close>

record row =
  cols :: "(string \<times> string option) list"
  restkey :: "string list option"

definition row_dict :: "string list \<Rightarrow> string list \<Rightarrow> row" where
  "row_dict fieldnames r =
     (let d = fold (\<lambda>(k, v). AList.update k (Some v)) (zip fieldnames r) [];
          lf = length fieldnames;
          lr = length r
      in \<lparr>cols = (if lf > lr then fold (\<lambda>k. AList.update k None) (drop lr fieldnames) d else d),
          restkey = (if lf < lr then Some (drop lf r) else None)\<rparr>)"

text \<open>
  \<open>DictReader\<close>: the first record of the reader is the header, also when it is empty;
  every later record that is not \<open>[]\<close> gives a dict.
\<close>

definition DictReader :: "string list list \<Rightarrow> row list" where
  "DictReader records =
     (case records of
        [] \<Rightarrow> []
      | fieldnames # rs \<Rightarrow> map (row_dict fieldnames) (filter (\<lambda>r. r \<noteq> []) rs))"

text \<open>
  \<open>csv.writer\<close> with the dialect \<open>excel\<close>: a field with a comma, a quote or a line break
  is quoted, its quotes doubled; a record of one empty field is written as two quotes; the
  line ends with \<open>\r\n\<close>. \<open>DictWriter.writerow\<close> writes the values of the field names
  in their order, an absent or \<open>None\<close> value as the empty text.
\<close>

definition quoted :: "string \<Rightarrow> string" where
  "quoted f =
     [dquote] @ concat (map (\<lambda>c. if c = dquote then [dquote, dquote] else [c]) f) @ [dquote]"

definition csv_field :: "string \<Rightarrow> string" where
  "csv_field f =
     (if list_ex (\<lambda>c. c = CHR '','' \<or> c = dquote \<or> c = CR \<or> c = LF) f then quoted f else f)"

definition csv_writerow :: "string list \<Rightarrow> string" where
  "csv_writerow fs =
     (if fs = [[]] then [dquote, dquote] else join '','' (map csv_field fs)) @ [CR, LF]"

definition dict_to_list :: "string list \<Rightarrow> row \<Rightarrow> string list" where
  "dict_to_list fieldnames d =
     map (\<lambda>k. case map_of (cols d) k of Some (Some v) \<Rightarrow> v | _ \<Rightarrow> []) fieldnames"

section \<open>The loader \<open>ler_lista_empresas_csv\<close>\<close>

text \<open>\<open>str(n)\<close> for a natural number, as the f-strings print \<open>len(dados)\<close> and the delay.\<close>

fun nat_str :: "nat \<Rightarrow> string" where
  "nat_str n =
     (if n < 10 then [char_of (48 + n)] else nat_str (n div 10) @ [char_of (48 + n mod 10)])"

definition exemplo_data :: "row list" where
  "exemplo_data =
     [\<lparr>cols = [(''Empresa'', Some ''Netflix''), (''Ticker'', Some ''NFLX''),
               (''Relatorio_URL'', Some ''N/A - Sem URL'')], restkey = None\<rparr>,
      \<lparr>cols = [(''Empresa'', Some ''Tesla''), (''Ticker'', Some ''TSLA''),
               (''Relatorio_URL'', Some ''N/A - Sem URL'')], restkey = None\<rparr>]"

definition fieldnames :: "string list" where
  "fieldnames = [''Empresa'', ''Ticker'', ''Relatorio_URL'']"

text \<open>The \<open>try\<close> block: read the file, one dict for each row.\<close>

definition ler_try :: "env \<Rightarrow> string \<Rightarrow> state \<Rightarrow> (pyexc + row list) \<times> state" where
  "ler_try w caminho_arquivo st =
     (case read_file w caminho_arquivo st of
        Inl e \<Rightarrow> (Inl e, st)
      | Inr text \<Rightarrow>
          (case reader_rows parse_reset (readlines (universal_newlines text)) of
             Inl e \<Rightarrow> (Inl e, st)
           | Inr records \<Rightarrow>
               (let dados = DictReader records
                in (Inr dados,
                    print (emoji_check @ '' Lista de empresas e URLs carregada ('' @
                           nat_str (length dados) @ '' itens).'') st))))"

text \<open>
  The handler of \<open>FileNotFoundError\<close>: write the header and the two rows, return the two
  rows. An exception of the handler itself leaves the function.
\<close>

definition ler_except :: "env \<Rightarrow> string \<Rightarrow> state \<Rightarrow> (pyexc + row list) \<times> state" where
  "ler_except w caminho_arquivo st =
     (let st1 = print (emoji_cross @ '' ERRO: Arquivo '' @ apostrophe @ caminho_arquivo @
                       apostrophe @ '' n'' @ a_tilde @ ''o encontrado. Criando um exemplo.'') st;
          text = csv_writerow fieldnames @
                 concat (map (\<lambda>r. csv_writerow (dict_to_list fieldnames r)) exemplo_data)
      in (case write_file w caminho_arquivo text st1 of
            (Some e, st2) \<Rightarrow> (Inl e, st2)
          | (None, st2) \<Rightarrow> (Inr exemplo_data, st2)))"

definition ler_lista_empresas_csv :: "env \<Rightarrow> string \<Rightarrow> state \<Rightarrow> (pyexc + row list) \<times> state" where
  "ler_lista_empresas_csv w caminho_arquivo st =
     (case ler_try w caminho_arquivo st of
        (Inl e, st') \<Rightarrow>
          (if exc_class_of e = FileNotFoundError then ler_except w caminho_arquivo st'
           else (Inl e, st'))
      | (Inr dados, st') \<Rightarrow> (Inr dados, st'))"

section \<open>The report and the main loop\<close>

text \<open>
  The f-string of the report, cut into its sections in the order of the source; then
  \<open>dedent\<close>.
\<close>

definition report_header :: "string \<Rightarrow> AnaliseAcionaria \<Rightarrow> string" where
  "report_header date r =
     ''\<newline>'' @ ''# '' @ emoji_page @ '' Relat'' @ o_acute @ ''rio de An'' @ a_acute @
     ''lise Acion'' @ a_acute @ ''ria: '' @ empresa r @ ''\<newline>'' @
     ''**Data da An'' @ a_acute @ ''lise:** '' @ date @ ''\<newline>'' @
     ''\<newline>'' @ ''---\<newline>'' @ ''\<newline>''"

definition report_summary :: "AnaliseAcionaria \<Rightarrow> string" where
  "report_summary r =
     ''## I. Sum'' @ a_acute @ ''rio Executivo\<newline>'' @
     sumario_executivo r @ ''\<newline>'' @
     ''\<newline>''"

definition report_table :: "(string \<Rightarrow> string) \<Rightarrow> AnaliseAcionaria \<Rightarrow> string" where
  "report_table up r =
     ''| Indicador | Detalhe |\<newline>'' @
     ''| :--- | :--- |\<newline>'' @ ''| **Valor Atual da A'' @ c_cedil @ a_tilde @
     ''o** | **'' @ valor_atual_acao r @ ''** |\<newline>'' @
     ''| **Recomenda'' @ c_cedil @ a_tilde @
     ''o** | **'' @ up (recomendacao_simplificada r) @ ''** |\<newline>'' @
     ''| **Sentimento Geral** | '' @ sentimento_geral r @ '' |\<newline>'' @
     ''\<newline>'' @ ''---\<newline>'' @ ''\<newline>''"

definition report_news :: "AnaliseAcionaria \<Rightarrow> string" where
  "report_news r =
     ''## II. Contexto e Not'' @ i_acute @ ''cias Relevantes\<newline>'' @
     ''### Destaques das '' @ U_acute @ ''ltimas Not'' @ i_acute @ ''cias\<newline>'' @
     ''* '' @ join ''\<newline>* '' (noticias_relevantes r) @ ''\<newline>'' @
     ''\<newline>'' @ ''---\<newline>'' @ ''\<newline>''"

definition report_financial :: "AnaliseAcionaria \<Rightarrow> string" where
  "report_financial r =
     ''## III. An'' @ a_acute @
     ''lise Fundamentalista (Resumo de Documentos Oficiais - RAG)\<newline>'' @
     analise_financeira_resumida r @ ''\<newline>'' @
     ''\<newline>'' @ ''---\<newline>'' @ ''\<newline>''"

definition report_disclaimer :: string where
  "report_disclaimer =
     ''**Nota:** A an'' @ a_acute @ ''lise fundamentalista foi extra'' @ i_acute @
     ''da da URL fornecida e processada pela ferramenta RAG (atualmente em modo simula'' @
     c_cedil @ a_tilde @ ''o).\<newline>''"

definition report_template :: "(string \<Rightarrow> string) \<Rightarrow> string \<Rightarrow> AnaliseAcionaria \<Rightarrow> string" where
  "report_template up date r =
     report_header date r @ report_summary r @ report_table up r @ report_news r @
     report_financial r @ report_disclaimer"

definition final_report_markdown :: "(string \<Rightarrow> string) \<Rightarrow> string \<Rightarrow> AnaliseAcionaria \<Rightarrow> string" where
  "final_report_markdown up date r = dedent (report_template up date r)"

definition file_name_clean :: "string \<Rightarrow> string" where
  "file_name_clean empresa_nome_completo =
     replace_char CHR '')'' [] (replace_char CHR ''('' [] (replace_char CHR '' '' ''_''
       empresa_nome_completo))"

definition report_path :: "string \<Rightarrow> string" where
  "report_path empresa_nome_completo =
     ''Relatorio_'' @ file_name_clean empresa_nome_completo @ ''.md''"

text \<open>A replacement field of an f-string prints \<open>None\<close> as the word.\<close>

fun format_value :: "string option \<Rightarrow> string" where
  "format_value None = ''None''"
| "format_value (Some s) = s"

definition key_error :: "string \<Rightarrow> pyexc" where
  "key_error k = PyExc KeyError (apostrophe @ k @ apostrophe)"

definition pergunta_pesquisa :: "string \<Rightarrow> string \<Rightarrow> string" where
  "pergunta_pesquisa empresa_nome_completo relatorio_url =
     ''\<newline>'' @ ''    Para a empresa '' @ empresa_nome_completo @ '', gere uma an'' @ a_acute @
     ''lise consolidada.\<newline>'' @ ''    1. Use a ferramenta '' @ apostrophe @
     ''tavily_search'' @ apostrophe @ '' para encontrar o VALOR ATUAL da a'' @ c_cedil @
     a_tilde @ ''o e as tr'' @ e_circ @ ''s not'' @ i_acute @
     ''cias mais recentes.\<newline>'' @ ''    2. Use a ferramenta '' @ apostrophe @
     ''consult_document_rag'' @ apostrophe @ '' com o input '' @ apostrophe @
     relatorio_url @ apostrophe @
     '' para extrair o resumo financeiro dos documentos.\<newline>'' @
     ''    3. Consolide TODAS as informa'' @ c_cedil @ o_tilde @ ''es (valor da a'' @
     c_cedil @ a_tilde @ ''o, not'' @ i_acute @
     ''cias da web e fatos do documento) para a resposta final.\<newline>'' @
     ''    ''"

definition DELAY_SECONDS :: nat where
  "DELAY_SECONDS = 7"

definition banner_rule :: string where
  "banner_rule = replicate 55 CHR ''=''"

text \<open>
  Step 7.3 of the loop body, the second \<open>try\<close>: compile the report, render it, write the
  file. Every exception is caught and printed.
\<close>

definition gerar_relatorio :: "env \<Rightarrow> nat \<Rightarrow> string \<Rightarrow> string \<Rightarrow> state \<Rightarrow> state" where
  "gerar_relatorio w i empresa_nome_completo fatos st =
     (let failed = (\<lambda>e. print (emoji_cross @ '' [ERRO NA GERA'' @ C_cedil @ A_tilde @
                      ''O] Falha na estrutura'' @ c_cedil @ a_tilde @ ''o JSON do relat'' @
                      o_acute @ ''rio para '' @ empresa_nome_completo @ '': '' @ exc_str e))
      in case relator w i empresa_nome_completo fatos of
           Inl e \<Rightarrow> failed e st
         | Inr relatorio_objeto \<Rightarrow>
             (case write_file w (report_path empresa_nome_completo)
                     (final_report_markdown (upper w) (today w i) relatorio_objeto) st of
                (Some e, st') \<Rightarrow> failed e st'
              | (None, st') \<Rightarrow>
                  print (emoji_check @ '' RELAT'' @ O_acute @ ''RIO CONCLU'' @ I_acute @
                         ''DO! Salvo como '' @ apostrophe @ report_path empresa_nome_completo @
                         apostrophe) st'))"

text \<open>
  The loop body from the banner on (lines 166 to 240), for the company at position \<open>i\<close>
  with the label \<open>empresa_nome_completo\<close>: the research in the first \<open>try\<close>, whose
  handler ends with \<open>continue\<close>; then the report and the delay.
\<close>

definition executar_analise :: "env \<Rightarrow> nat \<Rightarrow> string \<Rightarrow> string \<Rightarrow> state \<Rightarrow> state" where
  "executar_analise w i empresa_nome_completo relatorio_url st =
     (let st1 = print banner_rule
                  (print (''| '' @ emoji_chart @ '' INICIANDO AN'' @ A_acute @ ''LISE: '' @
                          empresa_nome_completo)
                    (print (''\<newline>'' @ banner_rule) st))
      in case researcher w i (pergunta_pesquisa empresa_nome_completo relatorio_url) of
           Inl e \<Rightarrow>
             print (emoji_cross @ '' [ERRO NA PESQUISA] Falha na coleta de dados para '' @
                    empresa_nome_completo @ ''.'')
               (st1\<lparr>fatos_consolidados :=
                      Some (''Erro na pesquisa web para '' @ empresa_nome_completo @ '': '' @
                            exc_str e)\<rparr>)
         | Inr fatos \<Rightarrow>
             sleep DELAY_SECONDS
               (print (''[DELAY] '' @ emoji_stopwatch @ '' Aguardando '' @
                       nat_str DELAY_SECONDS @
                       '' segundos para evitar exceder a quota da API Gemini...'')
                 (gerar_relatorio w i empresa_nome_completo fatos
                    (st1\<lparr>fatos_consolidados := Some fatos\<rparr>))))"

text \<open>
  One pass of the loop body. The three dict accesses come first, outside both \<open>try\<close>
  blocks. \<open>Inl\<close> is an exception that no handler catches, with the state it leaves;
  \<open>Inr\<close> is the state with which the loop goes on.
\<close>

definition analisar :: "env \<Rightarrow> nat \<Rightarrow> row \<Rightarrow> state \<Rightarrow> (pyexc \<times> state) + state" where
  "analisar w i dados_empresa st =
     (case map_of (cols dados_empresa) ''Empresa'' of
        None \<Rightarrow> Inl (key_error ''Empresa'', st)
      | Some nome \<Rightarrow>
     (case map_of (cols dados_empresa) ''Ticker'' of
        None \<Rightarrow> Inl (key_error ''Ticker'', st)
      | Some ticker \<Rightarrow>
     (case map_of (cols dados_empresa) ''Relatorio_URL'' of
        None \<Rightarrow> Inl (key_error ''Relatorio_URL'', st)
      | Some relatorio_url \<Rightarrow>
          Inr (executar_analise w i (format_value nome @ '' ('' @ format_value ticker @ '')'')
                 (format_value relatorio_url) st))))"

fun loop :: "env \<Rightarrow> nat \<Rightarrow> row list \<Rightarrow> state \<Rightarrow> (pyexc \<times> state) + state" where
  "loop w i [] st = Inr st"
| "loop w i (dados_empresa # empresas) st =
     (case analisar w i dados_empresa st of
        Inl err \<Rightarrow> Inl err
      | Inr st' \<Rightarrow> loop w (Suc i) empresas st')"

text \<open>
  The script from its first \<open>print\<close> on, started with the files \<open>fs\<close>: load the list from
  \<open>dados_empresas.csv\<close>, run the loop, print the closing banner. Building the model, the
  tools and the two chains (lines 99 to 156) is taken to succeed and has no effect on the
  state.
\<close>

definition initial_state :: "(string \<rightharpoonup> string) \<Rightarrow> state" where
  "initial_state fs = \<lparr>files = fs, console = [], slept = 0, fatos_consolidados = None\<rparr>"

definition main :: "env \<Rightarrow> (string \<rightharpoonup> string) \<Rightarrow> (pyexc \<times> state) + state" where
  "main w fs =
     (case ler_lista_empresas_csv w ''dados_empresas.csv''
             (print ''Ambiente e chaves carregadas.'' (initial_state fs)) of
        (Inl e, st) \<Rightarrow> Inl (e, st)
      | (Inr empresas_para_analisar, st) \<Rightarrow>
          (case loop w 0 empresas_para_analisar st of
             Inl err \<Rightarrow> Inl err
           | Inr st' \<Rightarrow>
               Inr (print banner_rule
                      (print (''| '' @ emoji_sparkles @
                              '' PROCESSAMENTO DE TODAS AS EMPRESAS CONCLU'' @ I_acute @ ''DO! '' @
                              emoji_sparkles @ '' |'')
                        (print (''\<newline>'' @ banner_rule) st')))))"

section \<open>Notions used by the properties\<close>

text \<open>
  A text has a blank line when one of its lines is not empty and made of spaces and tabs
  only: these are the lines that \<open>dedent\<close> empties.

  A well-formed CSV text: every record is one line, its fields joined by commas, ended by
  \<open>eol\<close>. A field without line break is written either quoted, its quotes doubled, or,
  when it is plain (no comma, quote, carriage return or line feed), as it is. The line of a
  record has at least one field and is not empty.
\<close>

definition has_blank_line :: "string \<Rightarrow> bool" where
  "has_blank_line s = list_ex (\<lambda>l. l \<noteq> [] \<and> list_all is_blank_char l) (split_nl s)"

definition plain_field :: "string \<Rightarrow> bool" where
  "plain_field f = (\<not> list_ex (\<lambda>c. c = CHR '','' \<or> c = dquote \<or> c = CR \<or> c = LF) f)"

definition csv_encodes :: "string \<Rightarrow> string \<Rightarrow> bool" where
  "csv_encodes e f =
     ((e = f \<and> plain_field f) \<or> (e = quoted f \<and> CR \<notin> set f \<and> LF \<notin> set f))"

definition csv_record :: "string list \<Rightarrow> string list \<Rightarrow> bool" where
  "csv_record es fs = (es \<noteq> [] \<and> es \<noteq> [[]] \<and> list_all2 csv_encodes es fs)"

definition csv_lines :: "string \<Rightarrow> string list list \<Rightarrow> string" where
  "csv_lines eol records = concat (map (\<lambda>fs. join '','' fs @ eol) records)"


section \<open>Example data\<close>

text \<open>
  A report record, and collaborators that succeed, or fail at one step, used where a
  property is run on a concrete input. \<open>str.upper\<close> is the identity on the texts of these
  examples, which have no lower-case letter where it is applied.
\<close>

definition report_example :: AnaliseAcionaria where
  "report_example =
     \<lparr>data_relatorio = ''2020-01-01'', empresa = ''Netflix - NFLX'',
      valor_atual_acao = ''$97.50'', sumario_executivo = ''Resultados fortes.'',
      noticias_relevantes = [''Resultado trimestral'', ''Novo plano'', ''Aumento de pre'' @ c_cedil @ ''os''],
      analise_financeira_resumida = ''N/A - Foco em Not'' @ i_acute @ ''cias'',
      sentimento_geral = ''Positivo'', recomendacao_simplificada = ''MANTER''\<rparr>"


definition env_example :: env where
  "env_example =
     \<lparr>read_fault = (\<lambda>p. None), open_fault = (\<lambda>p. None), write_fault = (\<lambda>p text. None),
      researcher = (\<lambda>i question. Inr ''Fatos da pesquisa''),
      relator = (\<lambda>i nome fatos. Inr report_example),
      today = (\<lambda>i. ''2026-11-04''), upper = (\<lambda>s. s)\<rparr>"

definition env_research_fails :: env where
  "env_research_fails =
     env_example\<lparr>researcher := (\<lambda>i question. Inl (PyExc RuntimeError ''429 Resource exhausted''))\<rparr>"

definition env_relator_fails :: env where
  "env_relator_fails =
     env_example\<lparr>relator := (\<lambda>i nome fatos. Inl (PyExc ValueError ''1 validation error for AnaliseAcionaria''))\<rparr>"

definition env_write_fails :: env where
  "env_write_fails =
     env_example\<lparr>write_fault :=
       (\<lambda>p text. Some (PyExc OSError ''[Errno 28] No space left on device'', 0))\<rparr>"

definition env_read_denied :: env where
  "env_read_denied =
     env_example\<lparr>read_fault := (\<lambda>p. Some (PyExc PermissionError ''[Errno 13] Permission denied''))\<rparr>"


definition row_without_ticker :: row where
  "row_without_ticker =
     \<lparr>cols = [(''Empresa'', Some ''Netflix''), (''Relatorio_URL'', Some ''N/A'')], restkey = None\<rparr>"

definition files_without_ticker :: "string \<rightharpoonup> string" where
  "files_without_ticker =
     [''dados_empresas.csv'' \<mapsto> ''Empresa,Relatorio_URL\<newline>Netflix,N/A\<newline>'']"


section \<open>Properties of the strings and of the document tool\<close>

lemma py_in_iff: "py_in needle hay \<longleftrightarrow> (\<exists>p s. hay = p @ needle @ s)"
proof -
  have "py_in needle hay = sublist needle hay"
    by (induction hay) (simp_all add: sublist_Cons_right)
  then show ?thesis by (simp add: sublist_def)
qed

lemmas dedent_defs = dedent_def whitespace_only_sub_def leading_whitespace_def
  is_blank_char_def strip_margin_def

lemma dedent_nflx_literal:
  "dedent nflx_literal =
     ''\<newline>'' @ ''An'' @ a_acute @
     ''lise RAG do 10-K (2023): A Receita totalizou $33.7 bilh'' @ o_tilde @
     ''es, um aumento de 6.7% A/A.\<newline>'' @
     ''O Lucro L'' @ i_acute @ ''quido foi de $5.4 bilh'' @ o_tilde @
     ''es. O Fluxo de Caixa Livre (FCF) foi robusto em $6.9 bilh'' @ o_tilde @
     ''es,\<newline>'' @ ''indicando forte gera'' @ c_cedil @ a_tilde @ ''o de caixa e sa'' @
     u_acute @ ''de financeira.\<newline>''"
  by (simp add: nflx_literal_def dedent_defs)

lemma dedent_tsla_literal:
  "dedent tsla_literal =
     ''\<newline>'' @ ''An'' @ a_acute @
     ''lise RAG do 10-K (2023): A Receita atingiu $96.8 bilh'' @ o_tilde @ ''es. Lucro L'' @
     i_acute @ ''quido: $15.0 bilh'' @ o_tilde @ ''es.\<newline>'' @
     ''O FCF foi de $4.4 bilh'' @ o_tilde @ ''es. O relat'' @ o_acute @
     ''rio destaca margens de lucro sob press'' @ a_tilde @ ''o devido a cortes de pre'' @
     c_cedil @ ''os.\<newline>''"
  by (simp add: tsla_literal_def dedent_defs)

lemma dedent_generic_literal:
  "dedent generic_literal =
     ''\<newline>'' @ ''An'' @ a_acute @ ''lise RAG (Simulada): Receita de $150 bilh'' @
     o_tilde @ ''es no '' @ u_acute @ ''ltimo ano. Lucro l'' @ i_acute @
     ''quido de $40 bilh'' @ o_tilde @ ''es. \<newline>'' @
     ''A empresa reportou forte recompra de a'' @ c_cedil @ o_tilde @ ''es e foca em servi'' @
     c_cedil @ ''os para crescimento futuro.\<newline>''"
  by (simp add: generic_literal_def dedent_defs)

text \<open>
  Claim C3. The tool's answer is a function of the URL text alone, decided in this order:
  the empty text, and any text in which \<open>N/A\<close> or \<open>Sem URL\<close> occurs, gives the fixed
  sentence that no data is available; otherwise a text in which \<open>NFLX\<close> occurs gives the
  first fixed paragraph; otherwise one in which \<open>TSLA\<close> occurs gives the second; every other
  text gives the generic third paragraph. The paragraphs are the literals after \<open>dedent\<close>.
\<close>

theorem consult_document_rag_policy:
  "consult_document_rag url =
     (if url = [] \<or> (\<exists>p s. url = p @ ''N/A'' @ s) \<or> (\<exists>p s. url = p @ ''Sem URL'' @ s)
      then ''Nenhum URL de relat'' @ o_acute @ ''rio financeiro v'' @ a_acute @
           ''lido foi fornecido. Dados fundamentalistas indispon'' @ i_acute @ ''veis.''
      else if \<exists>p s. url = p @ ''NFLX'' @ s
      then ''\<newline>'' @ ''An'' @ a_acute @
           ''lise RAG do 10-K (2023): A Receita totalizou $33.7 bilh'' @ o_tilde @
           ''es, um aumento de 6.7% A/A.\<newline>'' @
           ''O Lucro L'' @ i_acute @ ''quido foi de $5.4 bilh'' @ o_tilde @
           ''es. O Fluxo de Caixa Livre (FCF) foi robusto em $6.9 bilh'' @ o_tilde @
           ''es,\<newline>'' @ ''indicando forte gera'' @ c_cedil @ a_tilde @ ''o de caixa e sa'' @
           u_acute @ ''de financeira.\<newline>''
      else if \<exists>p s. url = p @ ''TSLA'' @ s
      then ''\<newline>'' @ ''An'' @ a_acute @
           ''lise RAG do 10-K (2023): A Receita atingiu $96.8 bilh'' @ o_tilde @ ''es. Lucro L'' @
           i_acute @ ''quido: $15.0 bilh'' @ o_tilde @ ''es.\<newline>'' @
           ''O FCF foi de $4.4 bilh'' @ o_tilde @ ''es. O relat'' @ o_acute @
           ''rio destaca margens de lucro sob press'' @ a_tilde @ ''o devido a cortes de pre'' @
           c_cedil @ ''os.\<newline>''
      else ''\<newline>'' @ ''An'' @ a_acute @ ''lise RAG (Simulada): Receita de $150 bilh'' @
           o_tilde @ ''es no '' @ u_acute @ ''ltimo ano. Lucro l'' @ i_acute @
           ''quido de $40 bilh'' @ o_tilde @ ''es. \<newline>'' @
           ''A empresa reportou forte recompra de a'' @ c_cedil @ o_tilde @ ''es e foca em servi'' @
           c_cedil @ ''os para crescimento futuro.\<newline>'')"
  unfolding consult_document_rag_def py_in_iff dedent_nflx_literal dedent_tsla_literal
    dedent_generic_literal no_url_text_def
  by (rule refl)

text \<open>
  Claim C10. In each of the two default rows the column \<open>Relatorio_URL\<close> holds a text in
  which a no-URL marker occurs, so the tool answers it with the fixed sentence, which is
  none of the three paragraphs.
\<close>

theorem default_rows_no_url:
  "list_all
     (\<lambda>r. case map_of (cols r) ''Relatorio_URL'' of
            Some (Some url) \<Rightarrow>
              (py_in ''N/A'' url \<or> py_in ''Sem URL'' url) \<and>
              consult_document_rag url = no_url_text \<and>
              consult_document_rag url \<noteq> dedent nflx_literal \<and>
              consult_document_rag url \<noteq> dedent tsla_literal \<and>
              consult_document_rag url \<noteq> dedent generic_literal
          | _ \<Rightarrow> False)
     exemplo_data"
  by (simp add: exemplo_data_def consult_document_rag_def dedent_nflx_literal
      dedent_tsla_literal dedent_generic_literal no_url_text_def)

section \<open>Lines, blank lines and \<open>dedent\<close>\<close>

lemma split_nl_not_Nil [simp]: "split_nl s \<noteq> []"
  by (induction s) (auto split: list.splits)

lemma split_nl_Cons_other: "c \<noteq> LF \<Longrightarrow> split_nl (c # s) = (c # hd (split_nl s)) # tl (split_nl s)"
  by (cases "split_nl s") simp_all

lemma split_nl_append_LF: "split_nl (a @ LF # b) = split_nl a @ split_nl b"
  by (induction a) (auto split: list.splits)

lemma split_nl_no_LF: "LF \<notin> set s \<Longrightarrow> split_nl s = [s]"
  by (induction s) auto

lemma split_nl_lines_no_LF: "l \<in> set (split_nl s) \<Longrightarrow> LF \<notin> set l"
proof (induction s arbitrary: l)
  case Nil
  then show ?case by simp
next
  case (Cons c s)
  show ?case
  proof (cases "c = LF")
    case True
    with Cons show ?thesis by auto
  next
    case False
    obtain x xs where sp: "split_nl s = x # xs" by (cases "split_nl s") simp_all
    with Cons False show ?thesis by auto
  qed
qed

lemma split_nl_append:
  "split_nl (a @ b) = butlast (split_nl a) @ [last (split_nl a) @ hd (split_nl b)] @ tl (split_nl b)"
proof (induction a)
  case Nil
  then show ?case by (cases "split_nl b") simp_all
next
  case (Cons c a)
  obtain x xs where sa: "split_nl a = x # xs" by (cases "split_nl a") simp_all
  obtain y ys where sab: "split_nl (a @ b) = y # ys" by (cases "split_nl (a @ b)") simp_all
  show ?case
  proof (cases "c = LF")
    case True
    with Cons sa show ?thesis by simp
  next
    case False
    with Cons sa sab show ?thesis by (cases xs) auto
  qed
qed

lemma join_split_nl: "join [LF] (split_nl s) = s"
proof (induction s)
  case Nil
  then show ?case by simp
next
  case (Cons c s)
  obtain x xs where sp: "split_nl s = x # xs" by (cases "split_nl s") simp_all
  with Cons show ?case by (cases xs) auto
qed

lemma split_nl_join:
  "ls \<noteq> [] \<Longrightarrow> \<forall>l\<in>set ls. LF \<notin> set l \<Longrightarrow> split_nl (join [LF] ls) = ls"
proof (induction ls)
  case Nil
  then show ?case by simp
next
  case (Cons l ls)
  then show ?case
    by (cases ls) (simp_all add: split_nl_append_LF split_nl_no_LF)
qed

lemma margin_step_Nil: "margin_step [] m = Some []"
  by (cases m) auto

lemma fold_margin_step_Some_Nil: "fold margin_step xs (Some []) = Some []"
  by (induction xs) auto

lemma fold_margin_step_Nil_mem: "[] \<in> set xs \<Longrightarrow> fold margin_step xs m = Some []"
  by (induction xs arbitrary: m) (auto simp: margin_step_Nil fold_margin_step_Some_Nil)

lemma split_nl_whitespace_only_sub:
  "split_nl (whitespace_only_sub t) =
     map (\<lambda>l. if list_all is_blank_char l then [] else l) (split_nl t)"
  unfolding whitespace_only_sub_def
  by (rule split_nl_join) (auto dest: split_nl_lines_no_LF)

lemma dedent_no_margin:
  assumes "c \<noteq> LF" and "\<not> is_blank_char c"
  shows "dedent (LF # c # s) = whitespace_only_sub (LF # c # s)"
proof -
  let ?l = "c # hd (split_nl s)"
  have "?l \<in> set (split_nl (LF # c # s))"
    using assms(1) by (cases "split_nl s") simp_all
  then have "?l \<in> set (split_nl (whitespace_only_sub (LF # c # s)))"
    using assms(2) by (force simp: split_nl_whitespace_only_sub)
  moreover have "dropWhile is_blank_char ?l \<noteq> []" and "takeWhile is_blank_char ?l = []"
    using assms(2) by simp_all
  ultimately have "[] \<in> set (leading_whitespace (whitespace_only_sub (LF # c # s)))"
    unfolding leading_whitespace_def by force
  then show ?thesis
    by (simp add: dedent_def fold_margin_step_Nil_mem)
qed

lemma has_blank_line_append:
  assumes "\<not> has_blank_line a" and "\<not> has_blank_line b"
  shows "\<not> has_blank_line (a @ b)"
proof -
  have a: "\<And>l. l \<in> set (split_nl a) \<Longrightarrow> list_all is_blank_char l \<Longrightarrow> l = []"
    using assms(1) by (auto simp: has_blank_line_def list_ex_iff)
  have b: "\<And>l. l \<in> set (split_nl b) \<Longrightarrow> list_all is_blank_char l \<Longrightarrow> l = []"
    using assms(2) by (auto simp: has_blank_line_def list_ex_iff)
  have la: "last (split_nl a) \<in> set (split_nl a)" and hb: "hd (split_nl b) \<in> set (split_nl b)"
    by simp_all
  have "l = []" if l: "l \<in> set (split_nl (a @ b))" and bl: "list_all is_blank_char l" for l
  proof -
    from l consider "l \<in> set (butlast (split_nl a))" | "l = last (split_nl a) @ hd (split_nl b)"
      | "l \<in> set (tl (split_nl b))"
      by (auto simp: split_nl_append)
    then show ?thesis
    proof cases
      case 1
      then show ?thesis using a bl by (meson in_set_butlastD)
    next
      case 2
      with bl have "list_all is_blank_char (last (split_nl a))"
        and "list_all is_blank_char (hd (split_nl b))" by simp_all
      with a b la hb 2 show ?thesis by simp
    next
      case 3
      then show ?thesis using b bl by (meson list.set_sel(2) split_nl_not_Nil)
    qed
  qed
  then show ?thesis by (auto simp: has_blank_line_def list_ex_iff)
qed

lemma whitespace_only_sub_id:
  assumes "\<not> has_blank_line t"
  shows "whitespace_only_sub t = t"
proof -
  have "map (\<lambda>l. if list_all is_blank_char l then [] else l) (split_nl t) = split_nl t"
    using assms by (intro map_idI) (auto simp: has_blank_line_def list_ex_iff)
  then show ?thesis by (simp add: whitespace_only_sub_def join_split_nl)
qed

lemma has_blank_line_join:
  assumes "list_all (\<lambda>n. \<not> has_blank_line n) ns" and "\<not> has_blank_line sep"
  shows "\<not> has_blank_line (join sep ns)"
  using assms
proof (induction ns)
  case Nil
  then show ?case by (simp add: has_blank_line_def)
next
  case (Cons n ns)
  then show ?case by (cases ns) (simp_all add: has_blank_line_append)
qed


section \<open>The report\<close>

text \<open>
  The second line of the template starts with \<open>#\<close>, so the margin of \<open>dedent\<close> is
  empty whatever the record holds: the rendered report is the template with its blank
  lines emptied.
\<close>

lemmas report_defs = report_template_def report_header_def report_summary_def
  report_table_def report_news_def report_financial_def report_disclaimer_def

lemma final_report_markdown_eq:
  "final_report_markdown up date r = whitespace_only_sub (report_template up date r)"
proof -
  obtain s where "report_template up date r = LF # CHR ''#'' # s"
    by (simp add: report_template_def report_header_def)
  then show ?thesis
    by (simp add: final_report_markdown_def dedent_no_margin is_blank_char_def)
qed

lemma report_template_no_blank_line:
  assumes "\<not> has_blank_line (empresa r)" and "\<not> has_blank_line date"
    and "\<not> has_blank_line (sumario_executivo r)" and "\<not> has_blank_line (valor_atual_acao r)"
    and "\<not> has_blank_line (up (recomendacao_simplificada r))"
    and "\<not> has_blank_line (sentimento_geral r)"
    and "list_all (\<lambda>n. \<not> has_blank_line n) (noticias_relevantes r)"
    and "\<not> has_blank_line (analise_financeira_resumida r)"
  shows "\<not> has_blank_line (report_template up date r)"
  unfolding report_template_def report_header_def report_summary_def report_table_def
    report_news_def report_financial_def report_disclaimer_def
  apply (intro has_blank_line_append has_blank_line_join assms)
  apply (simp_all add: has_blank_line_def is_blank_char_def)
  done

lemma date_line_in_template:
  assumes "LF \<notin> set date"
  shows "(''**Data da An'' @ a_acute @ ''lise:** '' @ date) \<in> set (split_nl (final_report_markdown up date r))"
proof -
  define D where "D = ''**Data da An'' @ a_acute @ ''lise:** '' @ date"
  define A where "A = ''\<newline>'' @ ''# '' @ emoji_page @ '' Relat'' @ o_acute @ ''rio de An'' @
    a_acute @ ''lise Acion'' @ a_acute @ ''ria: '' @ empresa r"
  define R where "R = ''\<newline>'' @ ''---\<newline>'' @ ''\<newline>'' @ report_summary r @
    report_table up r @ report_news r @ report_financial r @ report_disclaimer"
  have T: "report_template up date r = A @ LF # D @ LF # R"
    by (simp add: report_template_def report_header_def A_def D_def R_def)
  have "LF \<notin> set D" using assms by (simp add: D_def)
  then have "split_nl (report_template up date r) = split_nl A @ [D] @ split_nl R"
    by (simp add: T split_nl_append_LF split_nl_no_LF)
  then have mem: "D \<in> set (split_nl (report_template up date r))"
    by simp
  have nb: "\<not> list_all is_blank_char D"
    by (simp add: D_def is_blank_char_def)
  have "(if list_all is_blank_char D then [] else D)
          \<in> set (split_nl (final_report_markdown up date r))"
    unfolding final_report_markdown_eq split_nl_whitespace_only_sub set_map
    using mem by (rule imageI)
  with nb have "D \<in> set (split_nl (final_report_markdown up date r))"
    by simp
  then show ?thesis
    by (simp add: D_def)
qed


lemma example_report_no_blank_line:
  "\<not> has_blank_line (report_template (\<lambda>s. s) ''2026-11-04'' report_example)"
  by (rule report_template_no_blank_line)
    (simp_all add: report_example_def has_blank_line_def is_blank_char_def)

lemma example_document:
  "final_report_markdown (\<lambda>s. s) ''2026-11-04'' report_example =
     report_template (\<lambda>s. s) ''2026-11-04'' report_example"
  by (simp only: final_report_markdown_eq whitespace_only_sub_id example_report_no_blank_line
      not_False_eq_True)

subsection \<open>Effects on the state\<close>

lemma files_print [simp]: "files (print s st) = files st"
  and slept_print [simp]: "slept (print s st) = slept st"
  and fatos_print [simp]: "fatos_consolidados (print s st) = fatos_consolidados st"
  and console_print [simp]: "console (print s st) = console st @ [s]"
  by (simp_all add: print_def)

lemma files_sleep [simp]: "files (sleep n st) = files st"
  and slept_sleep [simp]: "slept (sleep n st) = slept st + n"
  and fatos_sleep [simp]: "fatos_consolidados (sleep n st) = fatos_consolidados st"
  and console_sleep [simp]: "console (sleep n st) = console st"
  by (simp_all add: sleep_def)

lemma write_file_ok:
  "open_fault w p = None \<Longrightarrow> write_fault w p t = None \<Longrightarrow>
   write_file w p t st = (None, st\<lparr>files := (files st)(p \<mapsto> t)\<rparr>)"
  by (simp add: write_file_def)

text \<open>
  Claim C2, amended. When a report is written, the date line of its header carries the text
  of \<open>date.today()\<close> taken when the report is rendered, and the document is the same
  whatever the record's own field \<open>data_relatorio\<close> holds (\<open>d\<close> below is any text): the
  template never reads that field. The claim as stated, that the header date is the
  record's field, fails for the example record, dated 2020-01-01 and rendered on
  2026-11-04.
\<close>

theorem report_date_is_today:
  assumes "relator w i nome fatos = Inr r"
    and "open_fault w (report_path nome) = None"
    and "write_fault w (report_path nome) (final_report_markdown (upper w) (today w i) r) = None"
    and "LF \<notin> set (today w i)"
  shows "\<exists>doc. files (gerar_relatorio w i nome fatos st) (report_path nome) = Some doc \<and>
           (''**Data da An'' @ a_acute @ ''lise:** '' @ today w i) \<in> set (split_nl doc) \<and>
           doc = final_report_markdown (upper w) (today w i) (r\<lparr>data_relatorio := d\<rparr>)"
proof -
  have "files (gerar_relatorio w i nome fatos st) (report_path nome) =
          Some (final_report_markdown (upper w) (today w i) r)"
    using assms(1-3) by (simp add: gerar_relatorio_def write_file_ok)
  moreover have "final_report_markdown (upper w) (today w i) (r\<lparr>data_relatorio := d\<rparr>) =
                   final_report_markdown (upper w) (today w i) r"
    by (simp add: final_report_markdown_def report_template_def report_header_def
        report_summary_def report_table_def report_news_def report_financial_def)
  ultimately show ?thesis
    using date_line_in_template [OF assms(4)] by simp
qed

theorem report_date_is_today_witness:
  "\<exists>doc. files (gerar_relatorio env_example 0 ''Netflix (NFLX)'' ''Fatos da pesquisa''
                  (initial_state Map.empty)) ''Relatorio_Netflix_NFLX.md'' = Some doc \<and>
         ''**Data da An'' @ a_acute @ ''lise:** 2026-11-04'' \<in> set (split_nl doc) \<and>
         doc = final_report_markdown (\<lambda>s. s) ''2026-11-04''
                 (report_example\<lparr>data_relatorio := ''2026-11-04''\<rparr>)"
  using report_date_is_today [of env_example 0 "''Netflix (NFLX)''" "''Fatos da pesquisa''"
      report_example "initial_state Map.empty" "''2026-11-04''"]
  by (simp add: env_example_def report_path_def file_name_clean_def replace_char_def)

theorem report_date_counterexample:
  "case files (gerar_relatorio env_example 0 ''Netflix (NFLX)'' ''Fatos da pesquisa''
                 (initial_state Map.empty)) ''Relatorio_Netflix_NFLX.md'' of
     None \<Rightarrow> False
   | Some doc \<Rightarrow>
       data_relatorio report_example = ''2020-01-01'' \<and>
       \<not> py_in (data_relatorio report_example) doc \<and>
       py_in (''**Data da An'' @ a_acute @ ''lise:** 2026-11-04'') doc"
proof -
  have "files (gerar_relatorio env_example 0 ''Netflix (NFLX)'' ''Fatos da pesquisa''
                 (initial_state Map.empty)) ''Relatorio_Netflix_NFLX.md'' =
        Some (report_template (\<lambda>s. s) ''2026-11-04'' report_example)"
    by (simp add: gerar_relatorio_def write_file_def env_example_def report_path_def
        file_name_clean_def replace_char_def example_document initial_state_def)
  moreover have "\<not> py_in (data_relatorio report_example)
                     (report_template (\<lambda>s. s) ''2026-11-04'' report_example)"
    by (simp add: report_defs report_example_def)
  moreover have "py_in (''**Data da An'' @ a_acute @ ''lise:** 2026-11-04'')
                     (report_template (\<lambda>s. s) ''2026-11-04'' report_example)"
    by (simp add: report_defs report_example_def)
  ultimately show ?thesis
    by (simp add: report_example_def)
qed




section \<open>Reading CSV text\<close>

lemma plain_fieldD:
  "plain_field f \<Longrightarrow> c \<in> set f \<Longrightarrow> c \<noteq> CHR '','' \<and> c \<noteq> dquote \<and> c \<noteq> CR \<and> c \<noteq> LF"
  by (auto simp: plain_field_def list_ex_iff)

lemma plain_field_Cons:
  "plain_field (c # f) \<longleftrightarrow> (c \<noteq> CHR '','' \<and> c \<noteq> dquote \<and> c \<noteq> CR \<and> c \<noteq> LF) \<and> plain_field f"
  by (auto simp: plain_field_def)

lemma plain_field_Nil [simp]: "plain_field []"
  by (simp add: plain_field_def)

lemma universal_newlines_no_CR:
  "CR \<notin> set l \<Longrightarrow> universal_newlines (l @ r) = l @ universal_newlines r"
proof (induction l)
  case Nil
  then show ?case by simp
next
  case (Cons c l)
  then show ?case by (cases "l @ r") auto
qed

lemma universal_newlines_LF: "universal_newlines (LF # r) = LF # universal_newlines r"
  by (cases r) simp_all

lemma universal_newlines_CRLF: "universal_newlines (CR # LF # r) = LF # universal_newlines r"
  by simp

lemma readlines_line: "LF \<notin> set l \<Longrightarrow> readlines (l @ LF # r) = (l @ [LF]) # readlines r"
  by (induction l) auto

lemma parse_chars_in_field:
  assumes "plain_field f" and "pstate r = IN_FIELD"
  shows "parse_chars (f @ rest) r = parse_chars rest (r\<lparr>field := field r @ f\<rparr>)"
  using assms
proof (induction f arbitrary: r)
  case Nil
  then show ?case by simp
next
  case (Cons c f)
  from Cons.prems have c: "c \<noteq> CHR '',''" "c \<noteq> dquote" "c \<noteq> CR" "c \<noteq> LF" and f: "plain_field f"
    by (simp_all add: plain_field_Cons)
  have "parse_process_char (Some c) r = Inr (parse_add_char c r)"
    using c Cons.prems(2) by (simp add: end_of_line_def)
  moreover have "pstate (parse_add_char c r) = IN_FIELD"
    using Cons.prems(2) by (simp add: parse_add_char_def)
  ultimately show ?case
    using Cons.IH [OF f, of "parse_add_char c r"] by (simp add: parse_add_char_def)
qed

lemma parse_chars_field_comma:
  assumes "plain_field f"
  shows "parse_chars (f @ CHR '','' # rest) \<lparr>pstate = START_FIELD, field = [], rfields = F\<rparr> =
         parse_chars rest \<lparr>pstate = START_FIELD, field = [], rfields = F @ [f]\<rparr>"
proof (cases f)
  case Nil
  then show ?thesis by (simp add: end_of_line_def parse_save_field_def)
next
  case (Cons c f')
  with assms have c: "c \<noteq> CHR '',''" "c \<noteq> dquote" "c \<noteq> CR" "c \<noteq> LF" and f: "plain_field f'"
    by (simp_all add: plain_field_Cons)
  show ?thesis
    using c parse_chars_in_field [OF f, of "\<lparr>pstate = IN_FIELD, field = [c], rfields = F\<rparr>" "CHR '','' # rest"]
    by (simp add: Cons end_of_line_def parse_add_char_def parse_save_field_def)
qed

lemma parse_chars_field_end:
  assumes "plain_field f"
  shows "parse_chars (f @ [LF]) \<lparr>pstate = START_FIELD, field = [], rfields = F\<rparr> =
         Inr \<lparr>pstate = START_RECORD, field = [], rfields = F @ [f]\<rparr>"
proof (cases f)
  case Nil
  then show ?thesis by (simp add: end_of_line_def parse_save_field_def)
next
  case (Cons c f')
  with assms have c: "c \<noteq> CHR '',''" "c \<noteq> dquote" "c \<noteq> CR" "c \<noteq> LF" and f: "plain_field f'"
    by (simp_all add: plain_field_Cons)
  show ?thesis
    using c parse_chars_in_field [OF f, of "\<lparr>pstate = IN_FIELD, field = [c], rfields = F\<rparr>" "[LF]"]
    by (simp add: Cons end_of_line_def parse_add_char_def parse_save_field_def)
qed

lemma parse_chars_start_record:
  assumes "c \<noteq> LF" and "c \<noteq> CR"
  shows "parse_chars (c # cs) \<lparr>pstate = START_RECORD, field = [], rfields = F\<rparr> =
         parse_chars (c # cs) \<lparr>pstate = START_FIELD, field = [], rfields = F\<rparr>"
  using assms by simp

lemma parse_chars_in_quoted:
  "parse_chars (concat (map (\<lambda>c. if c = dquote then [dquote, dquote] else [c]) f) @ after)
     \<lparr>pstate = IN_QUOTED_FIELD, field = b, rfields = F\<rparr> =
   parse_chars after \<lparr>pstate = IN_QUOTED_FIELD, field = b @ f, rfields = F\<rparr>"
proof (induction f arbitrary: b)
  case Nil
  then show ?case by simp
next
  case (Cons c f)
  show ?case
    using Cons [of "b @ [c]"] by (cases "c = dquote") (simp_all add: parse_add_char_def)
qed

lemma parse_chars_quoted:
  "parse_chars (quoted f @ after) \<lparr>pstate = START_FIELD, field = [], rfields = F\<rparr> =
   parse_chars after \<lparr>pstate = QUOTE_IN_QUOTED_FIELD, field = f, rfields = F\<rparr>"
proof -
  have "parse_chars (quoted f @ after) \<lparr>pstate = START_FIELD, field = [], rfields = F\<rparr> =
        parse_chars (concat (map (\<lambda>c. if c = dquote then [dquote, dquote] else [c]) f) @ dquote # after)
          \<lparr>pstate = IN_QUOTED_FIELD, field = [], rfields = F\<rparr>"
    by (simp add: quoted_def end_of_line_def)
  also have "\<dots> = parse_chars (dquote # after) \<lparr>pstate = IN_QUOTED_FIELD, field = [] @ f, rfields = F\<rparr>"
    by (rule parse_chars_in_quoted)
  also have "\<dots> = parse_chars after \<lparr>pstate = QUOTE_IN_QUOTED_FIELD, field = f, rfields = F\<rparr>"
    by simp
  finally show ?thesis .
qed

lemma parse_chars_encoded_comma:
  assumes "csv_encodes e f"
  shows "parse_chars (e @ CHR '','' # after) \<lparr>pstate = START_FIELD, field = [], rfields = F\<rparr> =
         parse_chars after \<lparr>pstate = START_FIELD, field = [], rfields = F @ [f]\<rparr>"
  using assms unfolding csv_encodes_def
proof (elim disjE conjE)
  assume "e = f" "plain_field f"
  then show ?thesis by (simp add: parse_chars_field_comma del: parse_chars.simps)
next
  assume "e = quoted f"
  then show ?thesis
    by (simp add: parse_chars_quoted parse_save_field_def del: parse_chars.simps)
      (simp add: parse_save_field_def)
qed

lemma parse_chars_encoded_end:
  assumes "csv_encodes e f"
  shows "parse_chars (e @ [LF]) \<lparr>pstate = START_FIELD, field = [], rfields = F\<rparr> =
         Inr \<lparr>pstate = START_RECORD, field = [], rfields = F @ [f]\<rparr>"
  using assms unfolding csv_encodes_def
proof (elim disjE conjE)
  assume "e = f" "plain_field f"
  then show ?thesis by (simp add: parse_chars_field_end del: parse_chars.simps)
next
  assume "e = quoted f"
  then show ?thesis
    by (simp add: parse_chars_quoted del: parse_chars.simps)
      (simp add: parse_save_field_def end_of_line_def)
qed

lemma parse_chars_encoded_fields:
  assumes "list_all2 csv_encodes es fs" and "es \<noteq> []"
  shows "parse_chars (join '','' es @ [LF]) \<lparr>pstate = START_FIELD, field = [], rfields = F\<rparr> =
         Inr \<lparr>pstate = START_RECORD, field = [], rfields = F @ fs\<rparr>"
  using assms
proof (induction es fs arbitrary: F rule: list_all2_induct)
  case Nil
  then show ?case by simp
next
  case (Cons e es f fs)
  show ?case
  proof (cases es)
    case Nil
    with Cons show ?thesis by (simp add: parse_chars_encoded_end del: parse_chars.simps)
  next
    case (Cons g gs)
    with Cons.hyps Cons.IH [of "F @ [f]"] show ?thesis
      by (simp add: parse_chars_encoded_comma del: parse_chars.simps)
  qed
qed

lemma csv_encodes_chars:
  assumes "csv_encodes e f" and "c \<in> set e"
  shows "c \<noteq> CR \<and> c \<noteq> LF"
  using assms
  by (auto simp: csv_encodes_def quoted_def dest: plain_fieldD split: if_splits)

lemma join_comma_encoded:
  "list_all2 csv_encodes es fs \<Longrightarrow> c \<in> set (join '','' es) \<Longrightarrow> c \<noteq> CR \<and> c \<noteq> LF"
proof (induction es fs rule: list_all2_induct)
  case Nil
  then show ?case by simp
next
  case (Cons e es f fs)
  then show ?case by (cases es) (auto dest: csv_encodes_chars)
qed

lemma csv_record_first:
  assumes "csv_record es fs"
  shows "\<exists>c cs. join '','' es @ [LF] = c # cs \<and> c \<noteq> LF \<and> c \<noteq> CR"
proof -
  from assms have ne: "es \<noteq> []" "es \<noteq> [[]]" and enc: "list_all2 csv_encodes es fs"
    by (simp_all add: csv_record_def)
  have "join '','' es \<noteq> []"
  proof (cases es)
    case Nil
    with ne show ?thesis by simp
  next
    case (Cons e gs)
    with ne show ?thesis by (cases gs) auto
  qed
  then obtain c cs where j: "join '','' es = c # cs" by (cases "join '','' es") auto
  with join_comma_encoded [OF enc, of c] have "c \<noteq> CR \<and> c \<noteq> LF" by simp
  with j show ?thesis by simp
qed

lemma parse_chars_csv_record:
  assumes "csv_record es fs"
  shows "parse_chars (join '','' es @ [LF]) parse_reset =
         Inr \<lparr>pstate = START_RECORD, field = [], rfields = fs\<rparr>"
proof -
  obtain c cs where l: "join '','' es @ [LF] = c # cs" and c: "c \<noteq> LF" "c \<noteq> CR"
    using csv_record_first [OF assms] by blast
  have "parse_chars (c # cs) parse_reset =
        parse_chars (c # cs) \<lparr>pstate = START_FIELD, field = [], rfields = []\<rparr>"
    unfolding parse_reset_def using c by (rule parse_chars_start_record)
  also have "\<dots> = Inr \<lparr>pstate = START_RECORD, field = [], rfields = [] @ fs\<rparr>"
    unfolding l [symmetric] using assms by (intro parse_chars_encoded_fields) (simp_all add: csv_record_def)
  finally show ?thesis by (simp add: l)
qed

lemma reader_rows_csv_records:
  assumes "list_all2 csv_record ers records"
  shows "reader_rows parse_reset (map (\<lambda>es. join '','' es @ [LF]) ers) = Inr records"
  using assms
proof (induction ers records rule: list_all2_induct)
  case Nil
  then show ?case by (simp add: parse_reset_def)
next
  case (Cons es ers fs records)
  then show ?case by (simp add: parse_chars_csv_record)
qed

lemma universal_newlines_csv_lines:
  assumes "eol = [LF] \<or> eol = [CR, LF]" and "list_all2 csv_record ers records"
  shows "universal_newlines (csv_lines eol ers) = csv_lines [LF] ers"
  using assms(2)
proof (induction ers records rule: list_all2_induct)
  case Nil
  then show ?case by (simp add: csv_lines_def)
next
  case (Cons es ers fs records)
  then have "CR \<notin> set (join '','' es)"
    using join_comma_encoded [of es fs CR] by (auto simp: csv_record_def)
  with Cons assms(1) show ?case
    by (auto simp: csv_lines_def universal_newlines_no_CR universal_newlines_LF
        universal_newlines_CRLF simp del: universal_newlines.simps)
qed

lemma readlines_csv_lines:
  assumes "list_all2 csv_record ers records"
  shows "readlines (csv_lines [LF] ers) = map (\<lambda>es. join '','' es @ [LF]) ers"
  using assms
proof (induction ers records rule: list_all2_induct)
  case Nil
  then show ?case by (simp add: csv_lines_def)
next
  case (Cons es ers fs records)
  then have "LF \<notin> set (join '','' es)"
    using join_comma_encoded [of es fs LF] by (auto simp: csv_record_def)
  with Cons show ?case
    by (simp add: csv_lines_def readlines_line del: readlines.simps)
qed

lemma read_csv_lines:
  assumes "eol = [LF] \<or> eol = [CR, LF]" and "list_all2 csv_record ers records"
  shows "reader_rows parse_reset (readlines (universal_newlines (csv_lines eol ers))) = Inr records"
  using assms
  by (simp add: universal_newlines_csv_lines [OF assms] readlines_csv_lines [OF assms(2)]
      reader_rows_csv_records)

lemma csv_record_plain:
  "fs \<noteq> [] \<Longrightarrow> fs \<noteq> [[]] \<Longrightarrow> list_all plain_field fs \<Longrightarrow> csv_record fs fs"
  by (simp add: csv_record_def csv_encodes_def list_all2_same list_all_iff)

lemma update_fresh: "k \<notin> fst ` set al \<Longrightarrow> AList.update k v al = al @ [(k, v)]"
  by (induction al) auto

lemma fold_update_zip:
  assumes "distinct ks" and "set ks \<inter> fst ` set al = {}" and "length vs = length ks"
  shows "fold (\<lambda>(k, v). AList.update k (Some v)) (zip ks vs) al = al @ zip ks (map Some vs)"
  using assms
proof (induction ks arbitrary: vs al)
  case Nil
  then show ?case by simp
next
  case (Cons k ks)
  then obtain v vs' where vs: "vs = v # vs'" by (cases vs) auto
  have "k \<notin> fst ` set al" using Cons.prems(2) by auto
  then have u: "AList.update k (Some v) al = al @ [(k, Some v)]" by (rule update_fresh)
  have "set ks \<inter> fst ` set (al @ [(k, Some v)]) = {}"
    using Cons.prems(1,2) by auto
  with Cons.IH [of "al @ [(k, Some v)]" vs'] Cons.prems(1,3) vs u show ?case by simp
qed

lemma row_dict_rectangular:
  assumes "distinct header" and "length r = length header"
  shows "row_dict header r = \<lparr>cols = zip header (map Some r), restkey = None\<rparr>"
  using fold_update_zip [OF assms(1) _ assms(2), of "[]"] assms(2)
  by (simp add: row_dict_def)

lemma DictReader_records:
  assumes "list_all2 csv_record ers rows"
  shows "DictReader (header # rows) = map (row_dict header) rows"
proof -
  have "r \<noteq> []" if "r \<in> set rows" for r
  proof -
    from that assms obtain es where "csv_record es r"
      by (auto simp: list_all2_conv_all_nth in_set_conv_nth)
    then show ?thesis by (auto simp: csv_record_def)
  qed
  then have "filter (\<lambda>r. r \<noteq> []) rows = rows"
    by (auto intro: filter_True)
  then show ?thesis by (simp add: DictReader_def)
qed

lemma ler_existing:
  assumes "read_fault w p = None" and "files st p = Some (csv_lines eol (eh # ers))"
    and "eol = [LF] \<or> eol = [CR, LF]" and "list_all2 csv_record (eh # ers) (header # rows)"
  shows "\<exists>st'. ler_lista_empresas_csv w p st = (Inr (map (row_dict header) rows), st') \<and>
               files st' = files st"
proof -
  have "reader_rows parse_reset (readlines (universal_newlines (csv_lines eol (eh # ers)))) =
          Inr (header # rows)"
    using assms(3,4) by (rule read_csv_lines)
  moreover have "DictReader (header # rows) = map (row_dict header) rows"
    using assms(4) by (intro DictReader_records [of ers]) simp
  ultimately show ?thesis
    using assms(1,2)
    by (simp add: ler_lista_empresas_csv_def ler_try_def read_file_def Let_def)
qed







text \<open>
  Claim C8. An exception of another class than \<open>FileNotFoundError\<close>, raised when the input
  file is opened or read, leaves the loader as it is and changes nothing; raised for
  \<open>dados_empresas.csv\<close> it ends the script after its first message, before any company is
  processed.
\<close>

theorem read_error_is_fatal:
  assumes "read_fault w caminho_arquivo = Some e"
    and "exc_class_of e \<noteq> FileNotFoundError"
  shows "ler_lista_empresas_csv w caminho_arquivo st = (Inl e, st) \<and>
         (caminho_arquivo = ''dados_empresas.csv'' \<longrightarrow>
          main w fs = Inl (e, print ''Ambiente e chaves carregadas.'' (initial_state fs)))"
proof -
  have 1: "ler_lista_empresas_csv w caminho_arquivo st' = (Inl e, st')" for st'
    using assms by (simp add: ler_lista_empresas_csv_def ler_try_def read_file_def)
  then show ?thesis
    by (auto simp: main_def)
qed

theorem read_error_is_fatal_witness:
  "ler_lista_empresas_csv env_read_denied ''dados_empresas.csv'' (initial_state Map.empty) =
     (Inl (PyExc PermissionError ''[Errno 13] Permission denied''), initial_state Map.empty) \<and>
   main env_read_denied Map.empty =
     Inl (PyExc PermissionError ''[Errno 13] Permission denied'',
          print ''Ambiente e chaves carregadas.'' (initial_state Map.empty))"
  using read_error_is_fatal [of env_read_denied "''dados_empresas.csv''"
      "PyExc PermissionError ''[Errno 13] Permission denied''" "initial_state Map.empty" Map.empty]
  by (simp add: env_read_denied_def env_example_def)

section \<open>The main loop\<close>



text \<open>
  Claim C1 at an input where the code departs from it: for one company whose research call
  raises, the run ends without any delay, so the time slept is below one delay.
\<close>

theorem no_delay_after_research_failure:
  "case loop env_research_fails 0 [hd exemplo_data] (initial_state Map.empty) of
     Inl err \<Rightarrow> False
   | Inr st \<Rightarrow> slept st = 0 \<and> slept st < 1 * DELAY_SECONDS"
  by (simp add: analisar_def executar_analise_def Let_def exemplo_data_def env_research_fails_def env_example_def
      initial_state_def DELAY_SECONDS_def print_def)

text \<open>
  The delay in general: a pass sleeps for \<open>DELAY_SECONDS\<close> when the research call returns,
  whatever becomes of the report, and not at all when the research call raises.
\<close>

lemma slept_gerar_relatorio: "slept (gerar_relatorio w i X fatos st) = slept st"
  by (simp add: gerar_relatorio_def write_file_def Let_def split: sum.splits option.splits prod.splits)

lemma slept_executar_analise:
  "slept (executar_analise w i X url st) =
     slept st + (case researcher w i (pergunta_pesquisa X url) of Inl e \<Rightarrow> 0 | Inr fatos \<Rightarrow> DELAY_SECONDS)"
  by (simp add: executar_analise_def Let_def slept_gerar_relatorio split: sum.splits)

text \<open>
  Claim C5, amended. After a successful research, when the compiler raises, or opening the
  report file raises, or writing it raises, the exception is caught and printed with the
  company label, the delay is taken, the loop goes on with the next company, and every file
  under another name than this company's report is unchanged; when the compiler or the
  opening raised, no file at all is changed. (A write that raises after the file was opened
  leaves the file created or emptied: the claim as stated fails there.)
\<close>

theorem report_failure_is_contained:
  assumes "map_of (cols dados_empresa) ''Empresa'' = Some nome"
    and "map_of (cols dados_empresa) ''Ticker'' = Some ticker"
    and "map_of (cols dados_empresa) ''Relatorio_URL'' = Some url"
    and "X = format_value nome @ '' ('' @ format_value ticker @ '')''"
    and "researcher w i (pergunta_pesquisa X (format_value url)) = Inr fatos"
    and "relator w i X fatos = Inl e \<or>
         (relator w i X fatos = Inr r \<and>
          (open_fault w (report_path X) = Some e \<or>
           (open_fault w (report_path X) = None \<and>
            write_fault w (report_path X) (final_report_markdown (upper w) (today w i) r) =
              Some (e, n))))"
  shows "\<exists>st'. analisar w i dados_empresa st = Inr st' \<and>
           loop w i (dados_empresa # empresas) st = loop w (Suc i) empresas st' \<and>
           (emoji_cross @ '' [ERRO NA GERA'' @ C_cedil @ A_tilde @
              ''O] Falha na estrutura'' @ c_cedil @ a_tilde @ ''o JSON do relat'' @
              o_acute @ ''rio para '' @ X @ '': '' @ exc_str e) \<in> set (console st') \<and>
           slept st' = slept st + DELAY_SECONDS \<and>
           (\<forall>p. p \<noteq> report_path X \<longrightarrow> files st' p = files st p) \<and>
           (relator w i X fatos = Inl e \<or> open_fault w (report_path X) = Some e \<longrightarrow>
            files st' = files st)"
proof -
  define st1 where "st1 = (print banner_rule
                  (print (''| '' @ emoji_chart @ '' INICIANDO AN'' @ A_acute @ ''LISE: '' @ X)
                    (print (''\<newline>'' @ banner_rule) st)))\<lparr>fatos_consolidados := Some fatos\<rparr>"
  define st2 where "st2 = gerar_relatorio w i X fatos st1"
  define st' where "st' = sleep DELAY_SECONDS
               (print (''[DELAY] '' @ emoji_stopwatch @ '' Aguardando '' @
                       nat_str DELAY_SECONDS @
                       '' segundos para evitar exceder a quota da API Gemini...'') st2)"
  have a: "analisar w i dados_empresa st = Inr st'"
    using assms(1-5) by (simp add: analisar_def executar_analise_def Let_def st'_def st2_def st1_def)
  have f1: "files st1 = files st" and s1: "slept st1 = slept st"
    by (simp_all add: st1_def)
  let ?msg = "emoji_cross @ '' [ERRO NA GERA'' @ C_cedil @ A_tilde @
              ''O] Falha na estrutura'' @ c_cedil @ a_tilde @ ''o JSON do relat'' @
              o_acute @ ''rio para '' @ X @ '': '' @ exc_str e"
  have g: "?msg \<in> set (console st2) \<and> slept st2 = slept st1 \<and>
           (\<forall>p. p \<noteq> report_path X \<longrightarrow> files st2 p = files st1 p) \<and>
           (relator w i X fatos = Inl e \<or> open_fault w (report_path X) = Some e \<longrightarrow>
            files st2 = files st1)"
    using assms(6)
    by (auto simp: st2_def gerar_relatorio_def write_file_def Let_def)
  from a g f1 s1 show ?thesis
    by (auto simp: st'_def)
qed

theorem report_failure_is_contained_witness:
  "\<exists>st'. analisar env_relator_fails 0 (hd exemplo_data) (initial_state Map.empty) = Inr st' \<and>
         loop env_relator_fails 0 exemplo_data (initial_state Map.empty) =
           loop env_relator_fails 1 (tl exemplo_data) st' \<and>
         (emoji_cross @ '' [ERRO NA GERA'' @ C_cedil @ A_tilde @
            ''O] Falha na estrutura'' @ c_cedil @ a_tilde @ ''o JSON do relat'' @ o_acute @
            ''rio para Netflix (NFLX): 1 validation error for AnaliseAcionaria'') \<in> set (console st') \<and>
         slept st' = 7 \<and> files st' = Map.empty"
proof -
  have "\<exists>st'. analisar env_relator_fails 0 (hd exemplo_data) (initial_state Map.empty) = Inr st' \<and>
           loop env_relator_fails 0 (hd exemplo_data # tl exemplo_data) (initial_state Map.empty) =
             loop env_relator_fails (Suc 0) (tl exemplo_data) st' \<and>
           (emoji_cross @ '' [ERRO NA GERA'' @ C_cedil @ A_tilde @
              ''O] Falha na estrutura'' @ c_cedil @ a_tilde @ ''o JSON do relat'' @
              o_acute @ ''rio para '' @ ''Netflix (NFLX)'' @ '': '' @
              exc_str (PyExc ValueError ''1 validation error for AnaliseAcionaria''))
             \<in> set (console st') \<and>
           slept st' = slept (initial_state Map.empty) + DELAY_SECONDS \<and>
           (\<forall>p. p \<noteq> report_path ''Netflix (NFLX)'' \<longrightarrow>
                files st' p = files (initial_state Map.empty) p) \<and>
           (relator env_relator_fails 0 ''Netflix (NFLX)'' ''Fatos da pesquisa'' =
              Inl (PyExc ValueError ''1 validation error for AnaliseAcionaria'') \<or>
            open_fault env_relator_fails (report_path ''Netflix (NFLX)'') =
              Some (PyExc ValueError ''1 validation error for AnaliseAcionaria'') \<longrightarrow>
            files st' = files (initial_state Map.empty))"
    by (rule report_failure_is_contained [where nome = "Some ''Netflix''" and ticker = "Some ''NFLX''"
          and url = "Some ''N/A - Sem URL''" and r = report_example and n = 0])
      (simp_all add: exemplo_data_def env_relator_fails_def env_example_def)
  then obtain st' where
    "analisar env_relator_fails 0 (hd exemplo_data) (initial_state Map.empty) = Inr st'"
    "loop env_relator_fails 0 (hd exemplo_data # tl exemplo_data) (initial_state Map.empty) =
       loop env_relator_fails (Suc 0) (tl exemplo_data) st'"
    "(emoji_cross @ '' [ERRO NA GERA'' @ C_cedil @ A_tilde @
        ''O] Falha na estrutura'' @ c_cedil @ a_tilde @ ''o JSON do relat'' @
        o_acute @ ''rio para '' @ ''Netflix (NFLX)'' @ '': '' @
        exc_str (PyExc ValueError ''1 validation error for AnaliseAcionaria'')) \<in> set (console st')"
    "slept st' = slept (initial_state Map.empty) + DELAY_SECONDS"
    "files st' = files (initial_state Map.empty)"
    by (auto simp: env_relator_fails_def env_example_def)
  then show ?thesis
    by (intro exI [of _ st']) (simp add: exemplo_data_def initial_state_def DELAY_SECONDS_def)
qed

theorem write_failure_counterexample:
  "case analisar env_write_fails 0 (hd exemplo_data) (initial_state Map.empty) of
     Inl err \<Rightarrow> False
   | Inr st' \<Rightarrow>
       files (initial_state Map.empty) ''Relatorio_Netflix_NFLX.md'' = None \<and>
       files st' ''Relatorio_Netflix_NFLX.md'' = Some [] \<and>
       (emoji_cross @ '' [ERRO NA GERA'' @ C_cedil @ A_tilde @
          ''O] Falha na estrutura'' @ c_cedil @ a_tilde @ ''o JSON do relat'' @ o_acute @
          ''rio para Netflix (NFLX): [Errno 28] No space left on device'') \<in> set (console st')"
  by (simp add: analisar_def executar_analise_def Let_def gerar_relatorio_def write_file_def
      exemplo_data_def env_write_fails_def env_example_def initial_state_def report_path_def
      file_name_clean_def replace_char_def)

subsection \<open>Rows that lack a key\<close>

lemma analisar_Inl:
  "analisar w i r st = Inl err \<Longrightarrow>
     \<exists>k. k \<in> set fieldnames \<and> err = (key_error k, st)"
  by (auto simp: analisar_def fieldnames_def split: option.splits)

lemma analisar_missing_key:
  assumes "map_of (cols r) ''Empresa'' = None \<or> map_of (cols r) ''Ticker'' = None \<or>
           map_of (cols r) ''Relatorio_URL'' = None"
  shows "\<exists>k. k \<in> set fieldnames \<and> analisar w i r st = Inl (key_error k, st)"
  using assms by (auto simp: analisar_def fieldnames_def split: option.splits)

lemma loop_missing_key:
  assumes "map_of (cols r) ''Empresa'' = None \<or> map_of (cols r) ''Ticker'' = None \<or>
           map_of (cols r) ''Relatorio_URL'' = None"
  shows "\<exists>k st'. k \<in> set fieldnames \<and> loop w i (pre @ r # post) st = Inl (key_error k, st')"
proof (induction pre arbitrary: i st)
  case Nil
  from analisar_missing_key [OF assms, of w i st] show ?case by auto
next
  case (Cons a pre)
  show ?case
  proof (cases "analisar w i a st")
    case (Inl err)
    with analisar_Inl [OF Inl] show ?thesis by auto
  next
    case (Inr st1)
    with Cons [of "Suc i" st1] show ?thesis by simp
  qed
qed

text \<open>
  Claim C9. When a row lacks one of the keys \<open>Empresa\<close>, \<open>Ticker\<close> and
  \<open>Relatorio_URL\<close>, the pass for this row ends with a \<open>KeyError\<close> that no handler
  catches and leaves the state as it was; a list that holds such a row ends the loop with an
  uncaught \<open>KeyError\<close>, the rows after it are not processed, and so does the whole script
  when the loader returned such a list.
\<close>

theorem missing_key_aborts_run:
  assumes "map_of (cols r) ''Empresa'' = None \<or> map_of (cols r) ''Ticker'' = None \<or>
           map_of (cols r) ''Relatorio_URL'' = None"
  shows "(\<exists>k. k \<in> set fieldnames \<and> loop w i (r # post) st = Inl (key_error k, st)) \<and>
         (\<exists>k st'. k \<in> set fieldnames \<and> loop w i (pre @ r # post) st = Inl (key_error k, st')) \<and>
         (ler_lista_empresas_csv w ''dados_empresas.csv''
            (print ''Ambiente e chaves carregadas.'' (initial_state fs)) = (Inr (pre @ r # post), st0)
          \<longrightarrow> (\<exists>k st'. k \<in> set fieldnames \<and> main w fs = Inl (key_error k, st')))"
proof (intro conjI impI)
  from analisar_missing_key [OF assms, of w i st]
  show "\<exists>k. k \<in> set fieldnames \<and> loop w i (r # post) st = Inl (key_error k, st)"
    by auto
  show "\<exists>k st'. k \<in> set fieldnames \<and> loop w i (pre @ r # post) st = Inl (key_error k, st')"
    by (rule loop_missing_key [OF assms])
  assume "ler_lista_empresas_csv w ''dados_empresas.csv''
            (print ''Ambiente e chaves carregadas.'' (initial_state fs)) = (Inr (pre @ r # post), st0)"
  with loop_missing_key [OF assms, of w 0 pre post st0]
  show "\<exists>k st'. k \<in> set fieldnames \<and> main w fs = Inl (key_error k, st')"
    by (auto simp: main_def)
qed

theorem missing_key_aborts_run_witness:
  "(\<exists>k. k \<in> set fieldnames \<and>
        loop env_example 0 [row_without_ticker] (initial_state Map.empty) =
          Inl (key_error k, initial_state Map.empty)) \<and>
   (\<exists>k st'. k \<in> set fieldnames \<and> main env_example files_without_ticker = Inl (key_error k, st'))"
proof -
  have "list_all2 csv_record [[''Empresa'', ''Relatorio_URL''], [''Netflix'', ''N/A'']]
          [[''Empresa'', ''Relatorio_URL''], [''Netflix'', ''N/A'']]"
    by (simp add: csv_record_plain plain_field_def)
  moreover have "files_without_ticker ''dados_empresas.csv'' =
      Some (csv_lines [LF] [[''Empresa'', ''Relatorio_URL''], [''Netflix'', ''N/A'']])"
    by (simp add: files_without_ticker_def csv_lines_def)
  moreover have "row_dict [''Empresa'', ''Relatorio_URL''] [''Netflix'', ''N/A''] = row_without_ticker"
    by (simp add: row_dict_rectangular row_without_ticker_def)
  ultimately obtain st0 where
    "ler_lista_empresas_csv env_example ''dados_empresas.csv''
       (print ''Ambiente e chaves carregadas.'' (initial_state files_without_ticker)) =
     (Inr ([] @ row_without_ticker # []), st0)"
    using ler_existing [of env_example "''dados_empresas.csv''"
        "print ''Ambiente e chaves carregadas.'' (initial_state files_without_ticker)" "[LF]"
        "[''Empresa'', ''Relatorio_URL'']" "[[''Netflix'', ''N/A'']]"
        "[''Empresa'', ''Relatorio_URL'']" "[[''Netflix'', ''N/A'']]"]
    by (auto simp: env_example_def initial_state_def)
  with missing_key_aborts_run [of row_without_ticker env_example 0 "[]" "initial_state Map.empty"
      "[]" files_without_ticker st0]
  show ?thesis
    by (simp add: row_without_ticker_def)
qed

end
